theory Spec2Isabelle
  imports Main "HOL-Library.AList"
begin

section \<open>Post Muse backend (main.py): data model\<close>

text \<open>
  Exceptions of the backend. \<open>HTTPException\<close> carries the status code and the detail
  string, as FastAPI's class does. The other constructors are the library exceptions
  that the handlers can meet: sqlite3's \<open>IntegrityError\<close>, pydantic's
  \<open>ValidationError\<close> (raised when a model is constructed from data that does not fit
  the declared field types), the \<open>RequestValidationError\<close> with which FastAPI refuses
  a request body that its model rejects, and Fernet's \<open>InvalidToken\<close>.
\<close>

datatype exn =
    HTTPException nat string
  | IntegrityError
  | ValidationError string
  | RequestValidationError "string list"
  | InvalidToken

text \<open>
  The status the framework answers with: an \<open>HTTPException\<close> surfaces its own
  code, a refused request body is answered with 422, any other exception escaping a
  handler with 500.
\<close>

fun status_code :: "exn \<Rightarrow> nat" where
  "status_code (HTTPException s d) = s"
| "status_code IntegrityError = 500"
| "status_code (ValidationError m) = 500"
| "status_code (RequestValidationError ms) = 422"
| "status_code InvalidToken = 500"

text \<open>Rows of the table \<open>users\<close> (the column \<open>id\<close> is \<open>users_id\<close> here).\<close>

record users_row =
  users_id :: string
  email :: string
  password :: string
  api_key :: string
  tier :: string
  api_calls :: int
  monthly_posts :: int
  is_admin :: bool

text \<open>
  A value of a result dictionary: a string or Python's \<open>None\<close>. A dictionary keeps
  its keys in insertion order, so it is an association list.
\<close>

type_synonym pydict = "(string \<times> string option) list"

text \<open>Rows of the table \<open>posts\<close>.\<close>

record posts_row =
  posts_id :: string
  posts_user_id :: string
  content :: string
  posts_platforms :: "string list"
  status :: string
  post_ids :: "pydict list"
  created_at :: string

text \<open>Rows of the table \<open>platform_tokens\<close>; the tokens are stored encrypted.\<close>

record platform_tokens_row =
  pt_user_id :: string
  pt_platform :: string
  access_token :: string
  refresh_token :: "string option"
  expiry :: int

record db =
  users :: "users_row list"
  posts :: "posts_row list"
  platform_tokens :: "platform_tokens_row list"

section \<open>Authentication dependency\<close>

text \<open>\<open>SELECT ... FROM users WHERE api_key = ?\<close> followed by \<open>fetchone()\<close>.\<close>

definition select_user_by_api_key :: "db \<Rightarrow> string \<Rightarrow> users_row option" where
  "select_user_by_api_key d token = find (\<lambda>u. api_key u = token) (users d)"

text \<open>The body of the \<open>try\<close> block of \<open>get_current_user\<close>.\<close>

definition get_current_user_try :: "db \<Rightarrow> string \<Rightarrow> exn + string" where
  "get_current_user_try d token =
     (case select_user_by_api_key d token of
        None \<Rightarrow> Inl (HTTPException 401 ''Invalid API key'')
      | Some row \<Rightarrow>
          if tier row = ''free'' \<and> monthly_posts row \<ge> 20
          then Inl (HTTPException 429 ''Free tier limit reached'')
          else Inr (users_id row))"

text \<open>
  \<open>get_current_user\<close>: the body runs under \<open>except Exception\<close>, and
  \<open>HTTPException\<close> is an \<open>Exception\<close>, so whatever the body raises is replaced.
\<close>

definition get_current_user :: "db \<Rightarrow> string \<Rightarrow> exn + string" where
  "get_current_user d token =
     (case get_current_user_try d token of
        Inl e \<Rightarrow> Inl (HTTPException 401 ''Invalid API key'')
      | Inr user_id \<Rightarrow> Inr user_id)"

section \<open>The world outside the program\<close>

text \<open>
  Library and network calls are parameters of the model. Calls whose result differs
  from one call to the next (\<open>uuid.uuid4()\<close>, the Twitter and Instagram requests)
  take a tick, a counter that the program advances at each such call.
  \<^item> \<open>uuid4\<close>: \<open>str(uuid.uuid4())\<close>;
  \<^item> \<open>pwd_hash\<close>, \<open>pwd_verify\<close>: \<open>pwd_context.hash\<close> and \<open>pwd_context.verify\<close>
    (password first, stored hash second);
  \<^item> \<open>validate_email\<close>: pydantic's \<open>EmailStr\<close>, \<open>None\<close> when the address is refused;
  \<^item> \<open>ADMIN_SECRET\<close>: \<open>os.getenv("ADMIN_SECRET")\<close>;
  \<^item> \<open>cipher_decrypt\<close>: \<open>cipher.decrypt(encrypted.encode()).decode()\<close>, \<open>None\<close> when
    it raises;
  \<^item> \<open>create_tweet\<close>: building the tweepy client, \<open>client.create_tweet(text=...)\<close> and
    \<open>str(response.data['id'])\<close>; \<open>Inl\<close> carries \<open>str(e)\<close> of the exception raised;
  \<^item> \<open>requests_post\<close>: the Instagram request with access token, caption and image url,
    and \<open>raise_for_status\<close>; \<open>Inl\<close> carries \<open>str(e)\<close>, \<open>Inr\<close> the \<open>"id"\<close>
    of the JSON answer when it has one;
  \<^item> \<open>utcnow\<close>: \<open>datetime.utcnow().isoformat()\<close>.
\<close>

record env =
  uuid4 :: "nat \<Rightarrow> string"
  pwd_hash :: "string \<Rightarrow> string"
  pwd_verify :: "string \<Rightarrow> string \<Rightarrow> bool"
  validate_email :: "string \<Rightarrow> string option"
  ADMIN_SECRET :: "string option"
  cipher_decrypt :: "string \<Rightarrow> string option"
  create_tweet :: "nat \<Rightarrow> string \<Rightarrow> string + string"
  requests_post :: "nat \<Rightarrow> string \<Rightarrow> string \<Rightarrow> string option \<Rightarrow> string + string option"
  utcnow :: "nat \<Rightarrow> string"

text \<open>\<open>str(n)\<close> of a natural number, in decimal.\<close>

definition digit :: "nat \<Rightarrow> char" where
  "digit n = ''0123456789'' ! n"

fun str_nat :: "nat \<Rightarrow> string" where
  "str_nat n =
     (if n < 10 then [digit n] else str_nat (n div 10) @ [digit (n mod 10)])"

declare str_nat.simps [simp del]

text \<open>
  \<open>str(e)\<close>. Starlette's \<open>HTTPException.__str__\<close> gives the status code, a colon
  and the detail.
\<close>

fun str_exn :: "exn \<Rightarrow> string" where
  "str_exn (HTTPException s d) = str_nat s @ '': '' @ d"
| "str_exn IntegrityError = ''IntegrityError''"
| "str_exn (ValidationError m) = m"
| "str_exn (RequestValidationError ms) = concat ms"
| "str_exn InvalidToken = []"

text \<open>\<open>str.lower()\<close>, on ASCII letters.\<close>

definition lower_char :: "char \<Rightarrow> char" where
  "lower_char c =
     (case map_of (zip ''ABCDEFGHIJKLMNOPQRSTUVWXYZ'' ''abcdefghijklmnopqrstuvwxyz'') c of
        None \<Rightarrow> c
      | Some l \<Rightarrow> l)"

definition lower :: "string \<Rightarrow> string" where
  "lower s = map lower_char s"

section \<open>Login\<close>

record LoginRequest =
  login_email :: string
  login_password :: string

text \<open>The body of the \<open>try\<close> block of \<open>login_user\<close>; the answer is the dictionary returned.\<close>

definition login_user_try :: "env \<Rightarrow> db \<Rightarrow> LoginRequest \<Rightarrow> exn + (string \<times> string) list" where
  "login_user_try e d request =
     (case find (\<lambda>u. email u = lower (login_email request)) (users d) of
        None \<Rightarrow> Inl (HTTPException 401 ''Invalid email or password'')
      | Some row \<Rightarrow>
          if pwd_verify e (login_password request) (password row)
          then Inr [(''api_key'', api_key row), (''message'', ''Login successful'')]
          else Inl (HTTPException 401 ''Invalid email or password''))"

text \<open>
  \<open>login_user\<close>: the \<open>raise HTTPException(401, ...)\<close> stands inside the \<open>try\<close>,
  and the handler \<open>except Exception\<close> raises 500 for whatever it catches.
\<close>

definition login_user :: "env \<Rightarrow> db \<Rightarrow> LoginRequest \<Rightarrow> exn + (string \<times> string) list" where
  "login_user e d request =
     (case login_user_try e d request of
        Inl ex \<Rightarrow> Inl (HTTPException 500 (''Login error: '' @ str_exn ex))
      | Inr answer \<Rightarrow> Inr answer)"

section \<open>Registration\<close>

text \<open>
  The request body of \<open>POST /api/user\<close>, with the fields in the order of the class
  \<open>UserCreateRequest\<close>: email, password, confirm_password, admin_secret, is_admin, tier.
\<close>

record UserCreateRequest =
  req_email :: string
  req_password :: string
  req_confirm_password :: string
  req_admin_secret :: "string option"
  req_is_admin :: bool
  req_tier :: string

text \<open>
  The validator \<open>passwords_match\<close> of \<open>confirm_password\<close>: \<open>v\<close> is the field's
  value, the second argument is \<open>info.data.get("password")\<close>. The test
  \<open>info.data.get("password") and ...\<close> is Python truthiness: \<open>None\<close> and the empty
  string both skip the comparison. \<open>Inl\<close> is the \<open>ValueError\<close>.
\<close>

definition passwords_match :: "string \<Rightarrow> string option \<Rightarrow> string + string" where
  "passwords_match v data_password =
     (case data_password of
        None \<Rightarrow> Inr v
      | Some p \<Rightarrow> if p \<noteq> [] \<and> v \<noteq> p then Inl ''Passwords do not match'' else Inr v)"

text \<open>
  The validator \<open>restrict_admin\<close> of \<open>is_admin\<close>: the second argument is
  \<open>info.data.get("admin_secret")\<close>, the third \<open>os.getenv("ADMIN_SECRET")\<close>.
\<close>

definition restrict_admin :: "bool \<Rightarrow> string option \<Rightarrow> string option \<Rightarrow> string + bool" where
  "restrict_admin v data_admin_secret secret =
     (if v \<and> data_admin_secret \<noteq> secret then Inl ''Invalid admin secret'' else Inr v)"

text \<open>The messages of a field: none when it validates.\<close>

definition errors_of :: "string + 'a \<Rightarrow> string list" where
  "errors_of r = (case r of Inl m \<Rightarrow> [m] | Inr v \<Rightarrow> [])"

text \<open>
  Construction of the model from a body whose fields have the declared JSON types.
  pydantic validates the fields in order and gathers the errors; a body with an error
  is refused and the handler does not run. \<open>password\<close> is a plain \<open>str\<close> and
  always validates, so \<open>info.data\<close> holds it when \<open>confirm_password\<close> is checked.
\<close>

definition validate_UserCreateRequest :: "env \<Rightarrow> UserCreateRequest \<Rightarrow> exn + UserCreateRequest" where
  "validate_UserCreateRequest e body =
     (let errs =
            (case validate_email e (req_email body) of None \<Rightarrow> [''Invalid email''] | Some a \<Rightarrow> [])
            @ errors_of (passwords_match (req_confirm_password body) (Some (req_password body)))
            @ errors_of (restrict_admin (req_is_admin body) (req_admin_secret body) (ADMIN_SECRET e))
      in if errs \<noteq> [] then Inl (RequestValidationError errs)
         else Inr (body\<lparr>req_email := (case validate_email e (req_email body) of
                                         None \<Rightarrow> req_email body | Some a \<Rightarrow> a)\<rparr>))"

text \<open>
  \<open>INSERT INTO users\<close>: \<open>id\<close> is the primary key, \<open>email\<close> and \<open>api_key\<close> are
  \<open>UNIQUE\<close>; \<open>None\<close> is sqlite3's \<open>IntegrityError\<close>.
\<close>

definition insert_user :: "db \<Rightarrow> users_row \<Rightarrow> db option" where
  "insert_user d row =
     (if list_ex (\<lambda>u. users_id u = users_id row \<or> email u = email row
                       \<or> api_key u = api_key row) (users d)
      then None
      else Some (d\<lparr>users := users d @ [row]\<rparr>))"

text \<open>
  The handler \<open>create_user\<close>, on a validated request. The API key is drawn before the
  user id. The columns \<open>api_calls\<close> and \<open>monthly_posts\<close> take their default 0. The
  result holds the next tick, the database and the answer.
\<close>

definition create_user :: "env \<Rightarrow> nat \<Rightarrow> db \<Rightarrow> UserCreateRequest \<Rightarrow> nat \<times> db \<times> (exn + (string \<times> string) list)" where
  "create_user e w d request =
     (let hashed = pwd_hash e (req_password request);
          key = uuid4 e w;
          row = \<lparr>users_id = uuid4 e (w + 1), email = lower (req_email request),
                 password = hashed, api_key = key, tier = req_tier request,
                 api_calls = 0, monthly_posts = 0, is_admin = req_is_admin request\<rparr>
      in case insert_user d row of
           None \<Rightarrow> (w + 2, d, Inl (HTTPException 400 ''User exists''))
         | Some d' \<Rightarrow> (w + 2, d', Inr [(''api_key'', key)]))"

text \<open>\<open>POST /api/user\<close>: the body is validated, then the handler runs.\<close>

definition post_api_user :: "env \<Rightarrow> nat \<Rightarrow> db \<Rightarrow> UserCreateRequest \<Rightarrow> nat \<times> db \<times> (exn + (string \<times> string) list)" where
  "post_api_user e w d body =
     (case validate_UserCreateRequest e body of
        Inl ex \<Rightarrow> (w, d, Inl ex)
      | Inr request \<Rightarrow> create_user e w d request)"

section \<open>Posting\<close>

definition PLATFORMS :: "string list" where
  "PLATFORMS = [''bluesky'', ''facebook'', ''gmb'', ''instagram'', ''linkedin'', ''pinterest'',
                ''reddit'', ''snapchat'', ''telegram'', ''tiktok'', ''threads'', ''twitter'',
                ''youtube'']"

text \<open>
  The fields of \<open>PostRequest\<close> that the handler reads. The other fields (shortUrl,
  autoHashtag, autoSchedule, mentions, notes, evergreen) are accepted and never read.
\<close>

record PostRequest =
  post :: string
  platforms :: "string list"
  mediaUrls :: "string list option"
  requiresApproval :: "bool option"

text \<open>
  \<open>PostResponse\<close> declares \<open>postIds: List[Dict[str, str]]\<close>: the values of its
  dictionaries are strings.
\<close>

record PostResponse =
  response_status :: string
  response_id :: string
  postIds :: "(string \<times> string) list list"

text \<open>\<open>{**a, **b}\<close>: the keys of \<open>b\<close> replace those of \<open>a\<close> or follow them.\<close>

definition dict_merge :: "pydict \<Rightarrow> pydict \<Rightarrow> pydict" where
  "dict_merge a b = fold (\<lambda>(k, v). AList.update k v) b a"

text \<open>\<open>d.get(k)\<close>, for the keys that the program sets.\<close>

definition dict_get :: "pydict \<Rightarrow> string \<Rightarrow> string option" where
  "dict_get dict k = (case map_of dict k of None \<Rightarrow> None | Some v \<Rightarrow> v)"

text \<open>\<open>MockClient.post\<close>: two fresh uuids, the one of \<open>id\<close> first.\<close>

definition MockClient_post :: "env \<Rightarrow> nat \<Rightarrow> string \<Rightarrow> string \<Rightarrow> string list option \<Rightarrow> nat \<times> pydict" where
  "MockClient_post e w text platform media_urls =
     (w + 2, [(''status'', Some ''success''), (''id'', Some (uuid4 e w)),
              (''postUrl'', Some (''https://'' @ platform @ ''.com/post/'' @ uuid4 e (w + 1)))])"

text \<open>\<open>SELECT is_admin FROM users WHERE id = ?\<close> followed by \<open>fetchone()\<close>.\<close>

definition select_is_admin :: "db \<Rightarrow> string \<Rightarrow> bool option" where
  "select_is_admin d user_id = map_option is_admin (find (\<lambda>u. users_id u = user_id) (users d))"

text \<open>\<open>get_twitter_client\<close>: the admin check; the client itself is part of \<open>create_tweet\<close>.\<close>

definition get_twitter_client :: "db \<Rightarrow> string \<Rightarrow> exn + unit" where
  "get_twitter_client d user_id =
     (case select_is_admin d user_id of
        None \<Rightarrow> Inl (HTTPException 403 ''Twitter posting restricted to admin users'')
      | Some a \<Rightarrow> if \<not> a then Inl (HTTPException 403 ''Twitter posting restricted to admin users'')
                  else Inr ())"

text \<open>\<open>decrypt_token\<close>: Fernet raises \<open>InvalidToken\<close> on a token it cannot decrypt.\<close>

definition decrypt_token :: "env \<Rightarrow> string \<Rightarrow> exn + string" where
  "decrypt_token e encrypted =
     (case cipher_decrypt e encrypted of None \<Rightarrow> Inl InvalidToken | Some t \<Rightarrow> Inr t)"

record token =
  token_access_token :: string
  token_refresh_token :: "string option"
  token_expiry :: int

text \<open>
  \<open>get_platform_token\<close>: the row of (user, platform), its tokens decrypted;
  \<open>row[1] and decrypt_token(row[1])\<close> leaves a missing or empty refresh token as it is.
  No handler is around the decryption.
\<close>

definition get_platform_token :: "env \<Rightarrow> db \<Rightarrow> string \<Rightarrow> string \<Rightarrow> exn + token option" where
  "get_platform_token e d user_id platform =
     (case find (\<lambda>r. pt_user_id r = user_id \<and> pt_platform r = platform) (platform_tokens d) of
        None \<Rightarrow> Inr None
      | Some row \<Rightarrow>
          (case decrypt_token e (access_token row) of
             Inl ex \<Rightarrow> Inl ex
           | Inr a \<Rightarrow>
               (case refresh_token row of
                  None \<Rightarrow> Inr (Some \<lparr>token_access_token = a, token_refresh_token = None,
                                      token_expiry = expiry row\<rparr>)
                | Some r \<Rightarrow>
                    if r = [] then Inr (Some \<lparr>token_access_token = a, token_refresh_token = Some r,
                                               token_expiry = expiry row\<rparr>)
                    else (case decrypt_token e r of
                            Inl ex \<Rightarrow> Inl ex
                          | Inr r' \<Rightarrow> Inr (Some \<lparr>token_access_token = a,
                                                   token_refresh_token = Some r',
                                                   token_expiry = expiry row\<rparr>)))))"

text \<open>
  \<open>post_to_instagram\<close>. The token is fetched outside the \<open>try\<close>, the request is made
  inside it. The default of \<open>.get("id", str(uuid.uuid4()))\<close> is evaluated whether the
  answer has an id or not.
\<close>

definition post_to_instagram :: "env \<Rightarrow> nat \<Rightarrow> db \<Rightarrow> string \<Rightarrow> string \<Rightarrow> string list option \<Rightarrow> nat \<times> (exn + pydict)" where
  "post_to_instagram e w d user_id text media_urls =
     (case get_platform_token e d user_id ''instagram'' of
        Inl ex \<Rightarrow> (w, Inl ex)
      | Inr None \<Rightarrow>
          (w, Inr [(''status'', Some ''error''), (''id'', None),
                   (''error'', Some ''No Instagram token'')])
      | Inr (Some tok) \<Rightarrow>
          (case requests_post e w (token_access_token tok) text
                  (case media_urls of None \<Rightarrow> None | Some [] \<Rightarrow> None | Some (u # us) \<Rightarrow> Some u) of
             Inl msg \<Rightarrow>
               (w + 1, Inr [(''status'', Some ''error''), (''id'', None), (''error'', Some msg)])
           | Inr answer_id \<Rightarrow>
               (w + 3, Inr [(''status'', Some ''success''),
                            (''id'', Some (case answer_id of None \<Rightarrow> uuid4 e (w + 1) | Some i \<Rightarrow> i)),
                            (''postUrl'', Some (''https://instagram.com/p/'' @ uuid4 e (w + 2)))])))"

text \<open>
  The twitter branch of the loop of \<open>create_post\<close>: the client and the tweet under
  \<open>try\<close>, any exception turned into an error entry.
\<close>

definition twitter_entry :: "env \<Rightarrow> nat \<Rightarrow> db \<Rightarrow> string \<Rightarrow> string \<Rightarrow> string \<Rightarrow> nat \<times> pydict" where
  "twitter_entry e w d user_id text platform =
     (case get_twitter_client d user_id of
        Inl ex \<Rightarrow> (w, [(''platform'', Some platform), (''status'', Some ''error''), (''id'', None),
                        (''error'', Some (str_exn ex))])
      | Inr client \<Rightarrow>
          (case create_tweet e w text of
             Inl msg \<Rightarrow> (w + 1, [(''platform'', Some platform), (''status'', Some ''error''),
                                  (''id'', None), (''error'', Some msg)])
           | Inr tweet_id \<Rightarrow>
               (w + 1, [(''platform'', Some platform), (''status'', Some ''success''),
                        (''id'', Some tweet_id),
                        (''postUrl'', Some (''https://twitter.com/user/status/'' @ tweet_id))])))"

text \<open>
  The loop of \<open>create_post\<close> over \<open>request.platforms\<close>, appending one entry to
  \<open>post_ids\<close> at each round. An exception that leaves \<open>post_to_instagram\<close> leaves
  the handler.
\<close>

fun create_post_loop :: "env \<Rightarrow> db \<Rightarrow> string \<Rightarrow> PostRequest \<Rightarrow> string list \<Rightarrow> nat \<Rightarrow> pydict list \<Rightarrow> nat \<times> (exn + pydict list)" where
  "create_post_loop e d user_id request [] w ids = (w, Inr ids)"
| "create_post_loop e d user_id request (platform # rest) w ids =
     (if platform = ''twitter'' then
        (case twitter_entry e w d user_id (post request) platform of
           (w', entry) \<Rightarrow> create_post_loop e d user_id request rest w' (ids @ [entry]))
      else if platform = ''instagram'' then
        (case post_to_instagram e w d user_id (post request) (mediaUrls request) of
           (w', Inl ex) \<Rightarrow> (w', Inl ex)
         | (w', Inr result) \<Rightarrow>
             create_post_loop e d user_id request rest w'
               (ids @ [dict_merge [(''platform'', Some platform)] result]))
      else
        (case MockClient_post e w (post request) platform (mediaUrls request) of
           (w', mock_id) \<Rightarrow>
             create_post_loop e d user_id request rest w'
               (ids @ [dict_merge [(''platform'', Some platform)] mock_id])))"

text \<open>A dictionary as \<open>Dict[str, str]\<close>: refused when a value is \<open>None\<close>.\<close>

fun str_values :: "pydict \<Rightarrow> (string \<times> string) list option" where
  "str_values [] = Some []"
| "str_values ((k, None) # kvs) = None"
| "str_values ((k, Some v) # kvs) = map_option ((#) (k, v)) (str_values kvs)"

text \<open>
  \<open>PostResponse(status=..., id=..., postIds=...)\<close>: pydantic validates the arguments
  against the declared field types and raises \<open>ValidationError\<close> when a dictionary of
  \<open>postIds\<close> holds \<open>None\<close>.
\<close>

definition make_PostResponse :: "string \<Rightarrow> string \<Rightarrow> pydict list \<Rightarrow> exn + PostResponse" where
  "make_PostResponse st post_id ids =
     (case those (map str_values ids) of
        None \<Rightarrow> Inl (ValidationError ''postIds: Input should be a valid string'')
      | Some dicts \<Rightarrow> Inr \<lparr>response_status = st, response_id = post_id, postIds = dicts\<rparr>)"

text \<open>\<open>INSERT INTO posts\<close>: \<open>id\<close> is the primary key; \<open>None\<close> is \<open>IntegrityError\<close>.\<close>

definition insert_post :: "db \<Rightarrow> posts_row \<Rightarrow> db option" where
  "insert_post d row =
     (if list_ex (\<lambda>p. posts_id p = posts_id row) (posts d) then None
      else Some (d\<lparr>posts := posts d @ [row]\<rparr>))"

text \<open>\<open>UPDATE users SET monthly_posts = monthly_posts + 1 WHERE id = ?\<close>.\<close>

definition update_monthly_posts :: "db \<Rightarrow> string \<Rightarrow> db" where
  "update_monthly_posts d user_id =
     d\<lparr>users := map (\<lambda>u. if users_id u = user_id
                          then u\<lparr>monthly_posts := monthly_posts u + 1\<rparr> else u) (users d)\<rparr>"

text \<open>
  The handler \<open>create_post\<close>, for the user id that \<open>get_current_user\<close> resolved. The
  post id is drawn before the loop. The row is inserted and the counter updated in one
  transaction, committed before the response is built: an \<open>IntegrityError\<close> leaves the
  database as it was, an error of the response model leaves it updated.
\<close>

definition create_post :: "env \<Rightarrow> nat \<Rightarrow> db \<Rightarrow> PostRequest \<Rightarrow> string \<Rightarrow> nat \<times> db \<times> (exn + PostResponse)" where
  "create_post e w d request user_id =
     (if \<not> list_all (\<lambda>p. p \<in> set PLATFORMS) (platforms request)
      then (w, d, Inl (HTTPException 400 ''Invalid platforms''))
      else
        let admin = (case select_is_admin d user_id of None \<Rightarrow> False | Some a \<Rightarrow> a) in
        if ''twitter'' \<in> set (platforms request) \<and> \<not> admin
        then (w, d, Inl (HTTPException 403 ''Twitter posting restricted to admin users''))
        else
          let post_id = uuid4 e w;
              st = (if requiresApproval request = Some True then ''awaiting_approval''
                    else ''success'')
          in case create_post_loop e d user_id request (platforms request) (w + 1) [] of
               (w', Inl ex) \<Rightarrow> (w', d, Inl ex)
             | (w', Inr ids) \<Rightarrow>
                 (case insert_post d \<lparr>posts_id = post_id, posts_user_id = user_id,
                                       content = post request,
                                       posts_platforms = platforms request, status = st,
                                       post_ids = ids, created_at = utcnow e w'\<rparr> of
                    None \<Rightarrow> (w' + 1, d, Inl IntegrityError)
                  | Some d1 \<Rightarrow>
                      (w' + 1, update_monthly_posts d1 user_id,
                       make_PostResponse st post_id ids)))"

text \<open>\<open>POST /api/post\<close>: the dependency \<open>get_current_user\<close>, then the handler.\<close>

definition post_api_post :: "env \<Rightarrow> nat \<Rightarrow> db \<Rightarrow> string \<Rightarrow> PostRequest \<Rightarrow> nat \<times> db \<times> (exn + PostResponse)" where
  "post_api_post e w d token request =
     (case get_current_user d token of
        Inl ex \<Rightarrow> (w, d, Inl ex)
      | Inr user_id \<Rightarrow> create_post e w d request user_id)"

text \<open>The tag of an entry, and a user by id.\<close>

definition platform_of :: "pydict \<Rightarrow> string option" where
  "platform_of entry = dict_get entry ''platform''"

definition user_by_id :: "db \<Rightarrow> string \<Rightarrow> users_row option" where
  "user_by_id d user_id = find (\<lambda>u. users_id u = user_id) (users d)"

text \<open>
  What the loop appends for a platform: an entry tagged with the platform, whose status
  is "success" when all its values are strings and "error" when its id is \<open>None\<close>.
\<close>

definition entry_ok :: "string \<Rightarrow> pydict \<Rightarrow> bool" where
  "entry_ok p entry \<longleftrightarrow> platform_of entry = Some p
     \<and> ((dict_get entry ''status'' = Some ''success'' \<and> str_values entry \<noteq> None)
        \<or> (dict_get entry ''status'' = Some ''error'' \<and> str_values entry = None))"

section \<open>Example data\<close>

text \<open>A world for the examples: uuids are numbered, every outside call succeeds.\<close>

definition env0 :: env where
  "env0 = \<lparr>uuid4 = (\<lambda>n. ''uuid-'' @ str_nat n),
           pwd_hash = (\<lambda>p. ''bcrypt:'' @ p),
           pwd_verify = (\<lambda>p h. h = ''bcrypt:'' @ p),
           validate_email = (\<lambda>a. if CHR ''@'' \<in> set a then Some a else None),
           ADMIN_SECRET = Some ''s3cret'',
           cipher_decrypt = (\<lambda>c. Some c),
           create_tweet = (\<lambda>w t. Inr (str_nat w)),
           requests_post = (\<lambda>w a c i. Inr None),
           utcnow = (\<lambda>w. ''2024-01-01T00:00:00'')\<rparr>"

text \<open>The same world, except that the tweet fails.\<close>

definition env_tweet_fails :: env where
  "env_tweet_fails = env0\<lparr>create_tweet := (\<lambda>w t. Inl ''503 Service Unavailable'')\<rparr>"

definition bob :: users_row where
  "bob = \<lparr>users_id = ''u2'', email = ''bob@example.com'', password = ''bcrypt:pw'',
          api_key = ''key-bob'', tier = ''free'', api_calls = 0,
          monthly_posts = 0, is_admin = False\<rparr>"

definition carol :: users_row where
  "carol = \<lparr>users_id = ''u3'', email = ''carol@example.com'', password = ''bcrypt:pw3'',
            api_key = ''key-carol'', tier = ''premium'', api_calls = 0,
            monthly_posts = 7, is_admin = True\<rparr>"

definition db_example :: db where
  "db_example = \<lparr>users = [bob, carol], posts = [], platform_tokens = []\<rparr>"

definition request_of :: "string list \<Rightarrow> bool option \<Rightarrow> PostRequest" where
  "request_of ps approval = \<lparr>post = ''hello'', platforms = ps, mediaUrls = None,
                             requiresApproval = approval\<rparr>"

definition alice :: users_row where
  "alice = \<lparr>users_id = ''u1'', email = ''alice@example.com'', password = ''h1'',
            api_key = ''key-alice'', tier = ''free'', api_calls = 0,
            monthly_posts = 20, is_admin = False\<rparr>"

definition db_quota :: db where
  "db_quota = \<lparr>users = [alice], posts = [], platform_tokens = []\<rparr>"

section \<open>Theorems: authentication\<close>

text \<open>
  C10. \<open>get_current_user\<close> either returns a user id or fails with
  401 "Invalid API key", and with nothing else: an unknown API key gives 401, and a
  free-tier user at the quota, for whom the body raises 429, gives 401 as well.
\<close>

theorem get_current_user_only_401:
  "((\<exists>user_id. get_current_user d token = Inr user_id)
      \<or> get_current_user d token = Inl (HTTPException 401 ''Invalid API key''))
   \<and> (select_user_by_api_key d token = None
        \<longrightarrow> get_current_user d token = Inl (HTTPException 401 ''Invalid API key''))
   \<and> (\<forall>row. select_user_by_api_key d token = Some row \<and> tier row = ''free''
              \<and> monthly_posts row \<ge> 20
        \<longrightarrow> get_current_user_try d token = Inl (HTTPException 429 ''Free tier limit reached'')
            \<and> get_current_user d token = Inl (HTTPException 401 ''Invalid API key'')
            \<and> status_code (HTTPException 401 ''Invalid API key'') = 401)"
  by (auto simp: get_current_user_def get_current_user_try_def split: option.splits sum.splits)

theorem get_current_user_only_401_witness:
  "select_user_by_api_key db_quota ''no-such-key'' = None
   \<and> get_current_user db_quota ''no-such-key'' = Inl (HTTPException 401 ''Invalid API key'')
   \<and> select_user_by_api_key db_quota ''key-alice'' = Some alice
   \<and> tier alice = ''free'' \<and> monthly_posts alice \<ge> 20
   \<and> get_current_user_try db_quota ''key-alice'' = Inl (HTTPException 429 ''Free tier limit reached'')
   \<and> get_current_user db_quota ''key-alice'' = Inl (HTTPException 401 ''Invalid API key'')"
  using get_current_user_only_401 [of db_quota "''no-such-key''"]
        get_current_user_only_401 [of db_quota "''key-alice''"]
  by (simp add: select_user_by_api_key_def db_quota_def alice_def)

text \<open>
  C4. A free-tier user whose \<open>monthly_posts\<close> is 20 is refused, but the status that
  reaches the caller is 401, not 429.
\<close>

theorem quota_surfaces_as_401:
  "get_current_user db_quota ''key-alice'' = Inl (HTTPException 401 ''Invalid API key'')
   \<and> status_code (HTTPException 401 ''Invalid API key'') \<noteq> 429"
  by (simp add: get_current_user_def get_current_user_try_def select_user_by_api_key_def
        db_quota_def alice_def)

section \<open>Lemmas: the loop and the response\<close>

lemma twitter_entry_ok:
  "twitter_entry e w d user_id t p = (w', entry) \<Longrightarrow> entry_ok p entry"
  by (auto simp: twitter_entry_def entry_ok_def platform_of_def dict_get_def
           split: sum.splits)

lemma mock_entry_ok:
  "MockClient_post e w t p m = (w', r) \<Longrightarrow> entry_ok p (dict_merge [(''platform'', Some p)] r)"
  by (auto simp: MockClient_post_def entry_ok_def platform_of_def dict_get_def dict_merge_def)

lemma instagram_entry_ok:
  "post_to_instagram e w d user_id t m = (w', Inr r)
   \<Longrightarrow> entry_ok p (dict_merge [(''platform'', Some p)] r)"
  by (auto simp: post_to_instagram_def entry_ok_def platform_of_def dict_get_def dict_merge_def
           split: sum.splits option.splits)

lemma loop_entries:
  "create_post_loop e d user_id request ps w ids = (w', Inr out)
   \<Longrightarrow> \<exists>new. out = ids @ new \<and> list_all2 entry_ok ps new"
proof (induction ps arbitrary: w ids)
  case Nil
  then show ?case by simp
next
  case (Cons p ps)
  show ?case
  proof (cases "p = ''twitter''")
    case True
    obtain w1 entry where t: "twitter_entry e w d user_id (post request) p = (w1, entry)"
      by (cases "twitter_entry e w d user_id (post request) p")
    with Cons.prems True have "create_post_loop e d user_id request ps w1 (ids @ [entry]) = (w', Inr out)"
      by simp
    from Cons.IH [OF this] obtain new where "out = (ids @ [entry]) @ new" "list_all2 entry_ok ps new"
      by blast
    with twitter_entry_ok [OF t] show ?thesis by auto
  next
    case nt: False
    show ?thesis
    proof (cases "p = ''instagram''")
      case True
      obtain w1 r where i: "post_to_instagram e w d user_id (post request) (mediaUrls request) = (w1, r)"
        by (cases "post_to_instagram e w d user_id (post request) (mediaUrls request)")
      with Cons.prems True obtain result where r: "r = Inr result"
        by (cases r) auto
      with Cons.prems True i
      have "create_post_loop e d user_id request ps w1
              (ids @ [dict_merge [(''platform'', Some p)] result]) = (w', Inr out)"
        by simp
      from Cons.IH [OF this] obtain new
        where "out = (ids @ [dict_merge [(''platform'', Some p)] result]) @ new"
              "list_all2 entry_ok ps new"
        by blast
      with instagram_entry_ok [of e w d user_id "post request" "mediaUrls request" w1 result p] i r
      show ?thesis by auto
    next
      case False
      obtain w1 r where m: "MockClient_post e w (post request) p (mediaUrls request) = (w1, r)"
        by (cases "MockClient_post e w (post request) p (mediaUrls request)")
      with Cons.prems nt False
      have "create_post_loop e d user_id request ps w1
              (ids @ [dict_merge [(''platform'', Some p)] r]) = (w', Inr out)"
        by simp
      from Cons.IH [OF this] obtain new
        where "out = (ids @ [dict_merge [(''platform'', Some p)] r]) @ new"
              "list_all2 entry_ok ps new"
        by blast
      with mock_entry_ok [OF m] show ?thesis by auto
    qed
  qed
qed

lemma those_str_values:
  "those (map str_values ids) = Some dicts \<Longrightarrow> list_all2 (\<lambda>entry dict. str_values entry = Some dict) ids dicts"
  by (induction ids arbitrary: dicts) (auto split: option.splits)

lemma str_values_map_of:
  "str_values entry = Some dict \<Longrightarrow> map_of dict k = dict_get entry k"
  by (induction entry arbitrary: dict rule: str_values.induct) (auto simp: dict_get_def)

lemma create_post_Inr:
  assumes "create_post e w d request user_id = (w', d', Inr response)"
  shows "\<exists>w1 ids d1. list_all (\<lambda>p. p \<in> set PLATFORMS) (platforms request)
       \<and> (''twitter'' \<in> set (platforms request) \<longrightarrow> select_is_admin d user_id = Some True)
       \<and> create_post_loop e d user_id request (platforms request) (w + 1) [] = (w1, Inr ids)
       \<and> insert_post d \<lparr>posts_id = uuid4 e w, posts_user_id = user_id, content = post request,
             posts_platforms = platforms request,
             status = (if requiresApproval request = Some True then ''awaiting_approval'' else ''success''),
             post_ids = ids, created_at = utcnow e w1\<rparr> = Some d1
       \<and> d' = update_monthly_posts d1 user_id
       \<and> make_PostResponse (if requiresApproval request = Some True then ''awaiting_approval'' else ''success'')
            (uuid4 e w) ids = Inr response"
  using assms
  by (auto simp: create_post_def Let_def split: if_splits prod.splits sum.splits option.splits)


lemma response_tags:
  assumes "create_post e w d request user_id = (w', d', Inr response)"
  shows "map (\<lambda>dict. map_of dict ''platform'') (postIds response) = map Some (platforms request)"
proof -
  from create_post_Inr [OF assms] obtain w1 ids st where
    loop: "create_post_loop e d user_id request (platforms request) (w + 1) [] = (w1, Inr ids)"
    and resp: "make_PostResponse st (uuid4 e w) ids = Inr response"
    by blast
  from loop_entries [OF loop] have ok: "list_all2 entry_ok (platforms request) ids"
    by simp
  from resp have "those (map str_values ids) = Some (postIds response)"
    by (auto simp: make_PostResponse_def split: option.splits)
  then have sv: "list_all2 (\<lambda>entry dict. str_values entry = Some dict) ids (postIds response)"
    by (rule those_str_values)
  have "list_all2 (\<lambda>p dict. map_of dict ''platform'' = Some p) (platforms request) (postIds response)"
  proof (rule list_all2_trans [OF _ ok sv])
    fix p entry dict
    assume "entry_ok p entry" "str_values entry = Some dict"
    then show "map_of dict ''platform'' = Some p"
      by (simp add: str_values_map_of entry_ok_def platform_of_def)
  qed
  then show ?thesis
    by (induction rule: list_all2_induct) auto
qed

lemma loop_mock:
  "''instagram'' \<notin> set ps \<Longrightarrow> ''twitter'' \<notin> set ps
   \<Longrightarrow> \<exists>w' new. create_post_loop e d user_id request ps w ids = (w', Inr (ids @ new))
                \<and> list_all (\<lambda>entry. str_values entry \<noteq> None) new"
proof (induction ps arbitrary: w ids)
  case Nil
  then show ?case by simp
next
  case (Cons p ps)
  let ?entry = "dict_merge [(''platform'', Some p)]
                  (snd (MockClient_post e w (post request) p (mediaUrls request)))"
  from Cons.prems have p: "p \<noteq> ''twitter''" "p \<noteq> ''instagram''"
    by auto
  then have step: "create_post_loop e d user_id request (p # ps) w ids
                   = create_post_loop e d user_id request ps (w + 2) (ids @ [?entry])"
    by (simp add: MockClient_post_def)
  from Cons.prems have "''instagram'' \<notin> set ps" "''twitter'' \<notin> set ps"
    by auto
  from Cons.IH [OF this, of "w + 2" "ids @ [?entry]"] obtain w' new
    where "create_post_loop e d user_id request ps (w + 2) (ids @ [?entry])
             = (w', Inr ((ids @ [?entry]) @ new))"
      and "list_all (\<lambda>entry. str_values entry \<noteq> None) new"
    by blast
  moreover have "str_values ?entry \<noteq> None"
    by (simp add: MockClient_post_def dict_merge_def)
  ultimately show ?case
    unfolding step by (intro exI [of _ w'] exI [of _ "?entry # new"]) simp
qed

lemma those_Some:
  "list_all (\<lambda>x. x \<noteq> None) xs \<Longrightarrow> \<exists>ys. those xs = Some ys"
  by (induction xs) auto

lemma create_post_mock_returns:
  assumes "list_all (\<lambda>p. p \<in> set PLATFORMS) (platforms request)"
    and "''twitter'' \<notin> set (platforms request)"
    and "''instagram'' \<notin> set (platforms request)"
    and "\<not> list_ex (\<lambda>p. posts_id p = uuid4 e w) (posts d)"
  shows "\<exists>w' d' response. create_post e w d request user_id = (w', d', Inr response)"
proof -
  from loop_mock [OF assms(3) assms(2), of e d user_id request "w + 1" "[]"] obtain w1 ids
    where loop: "create_post_loop e d user_id request (platforms request) (w + 1) [] = (w1, Inr ids)"
      and "list_all (\<lambda>entry. str_values entry \<noteq> None) ids"
    by auto
  then have "list_all (\<lambda>x. x \<noteq> None) (map str_values ids)"
    by (simp add: list_all_iff)
  from those_Some [OF this] obtain dicts where "those (map str_values ids) = Some dicts" ..
  with loop assms(1,2,4) show ?thesis
    by (simp add: create_post_def Let_def insert_post_def make_PostResponse_def)
qed

lemma find_update_same:
  "find (\<lambda>u. users_id u = i) us = Some u
   \<Longrightarrow> find (\<lambda>u. users_id u = i)
         (map (\<lambda>u. if users_id u = i then u\<lparr>monthly_posts := monthly_posts u + 1\<rparr> else u) us)
       = Some (u\<lparr>monthly_posts := monthly_posts u + 1\<rparr>)"
  by (induction us) (auto split: if_splits)

lemma find_update_other:
  "j \<noteq> i
   \<Longrightarrow> find (\<lambda>u. users_id u = j)
         (map (\<lambda>u. if users_id u = i then u\<lparr>monthly_posts := monthly_posts u + 1\<rparr> else u) us)
       = find (\<lambda>u. users_id u = j) us"
  by (induction us) auto

lemma create_post_persists:
  assumes "list_all (\<lambda>p. p \<in> set PLATFORMS) (platforms request)"
    and "''twitter'' \<in> set (platforms request) \<longrightarrow> select_is_admin d user_id = Some True"
    and "create_post_loop e d user_id request (platforms request) (w + 1) [] = (w1, Inr ids)"
    and "\<not> list_ex (\<lambda>p. posts_id p = uuid4 e w) (posts d)"
  shows "create_post e w d request user_id =
           (w1 + 1,
            update_monthly_posts
              (d\<lparr>posts := posts d @
                   [\<lparr>posts_id = uuid4 e w, posts_user_id = user_id, content = post request,
                     posts_platforms = platforms request,
                     status = (if requiresApproval request = Some True
                               then ''awaiting_approval'' else ''success''),
                     post_ids = ids, created_at = utcnow e w1\<rparr>]\<rparr>) user_id,
            make_PostResponse (if requiresApproval request = Some True
                               then ''awaiting_approval'' else ''success'') (uuid4 e w) ids)"
  using assms by (auto simp: create_post_def Let_def insert_post_def)

lemma create_post_outcome:
  assumes "create_post e w d request user_id = (w', d', r)"
  shows "d' = d \<and> (\<exists>ex. r = Inl ex)
       \<or> (\<exists>w1 ids.
            create_post_loop e d user_id request (platforms request) (w + 1) [] = (w1, Inr ids)
            \<and> d' = update_monthly_posts
                     (d\<lparr>posts := posts d @
                          [\<lparr>posts_id = uuid4 e w, posts_user_id = user_id, content = post request,
                            posts_platforms = platforms request,
                            status = (if requiresApproval request = Some True
                                      then ''awaiting_approval'' else ''success''),
                            post_ids = ids, created_at = utcnow e w1\<rparr>]\<rparr>) user_id
            \<and> r = make_PostResponse (if requiresApproval request = Some True
                                      then ''awaiting_approval'' else ''success'') (uuid4 e w) ids)"
  using assms
  by (auto simp: create_post_def Let_def insert_post_def
           split: if_splits prod.splits sum.splits option.splits)

text \<open>
  A user without an Instagram token: the loop runs to its end, the instagram entry is
  the error entry "No Instagram token" and every generic platform gets a success entry;
  the handler then never returns a response, since that entry holds \<open>None\<close>.
\<close>

lemma post_to_instagram_without_token:
  "find (\<lambda>r. pt_user_id r = user_id \<and> pt_platform r = ''instagram'') (platform_tokens d) = None
   \<Longrightarrow> post_to_instagram e w d user_id t m
       = (w, Inr [(''status'', Some ''error''), (''id'', None),
                  (''error'', Some ''No Instagram token'')])"
  by (simp add: post_to_instagram_def get_platform_token_def)

lemma loop_instagram_without_token:
  assumes "find (\<lambda>r. pt_user_id r = user_id \<and> pt_platform r = ''instagram'') (platform_tokens d) = None"
  shows "\<exists>w' new. create_post_loop e d user_id request ps w ids = (w', Inr (ids @ new))
           \<and> list_all2 (\<lambda>p entry.
                 (p = ''instagram'' \<longrightarrow>
                    entry = [(''platform'', Some ''instagram''), (''status'', Some ''error''),
                             (''id'', None), (''error'', Some ''No Instagram token'')])
               \<and> (p \<noteq> ''instagram'' \<and> p \<noteq> ''twitter'' \<longrightarrow>
                    platform_of entry = Some p \<and> dict_get entry ''status'' = Some ''success''))
               ps new"
proof (induction ps arbitrary: w ids)
  case Nil
  then show ?case by simp
next
  case (Cons p ps)
  show ?case
  proof (cases "p = ''twitter''")
    case True
    obtain w1 entry where t: "twitter_entry e w d user_id (post request) p = (w1, entry)"
      by (cases "twitter_entry e w d user_id (post request) p")
    from Cons.IH [of w1 "ids @ [entry]"] obtain w' new
      where "create_post_loop e d user_id request ps w1 (ids @ [entry]) = (w', Inr ((ids @ [entry]) @ new))"
        and "list_all2 (\<lambda>p entry.
                 (p = ''instagram'' \<longrightarrow>
                    entry = [(''platform'', Some ''instagram''), (''status'', Some ''error''),
                             (''id'', None), (''error'', Some ''No Instagram token'')])
               \<and> (p \<noteq> ''instagram'' \<and> p \<noteq> ''twitter'' \<longrightarrow>
                    platform_of entry = Some p \<and> dict_get entry ''status'' = Some ''success''))
               ps new"
      by blast
    with True t show ?thesis
      by (intro exI [of _ w'] exI [of _ "entry # new"]) simp
  next
    case nt: False
    show ?thesis
    proof (cases "p = ''instagram''")
      case True
      let ?entry = "[(''platform'', Some ''instagram''), (''status'', Some ''error''),
                     (''id'', None), (''error'', Some ''No Instagram token'')]"
      from Cons.IH [of w "ids @ [?entry]"] obtain w' new
        where "create_post_loop e d user_id request ps w (ids @ [?entry]) = (w', Inr ((ids @ [?entry]) @ new))"
          and "list_all2 (\<lambda>p entry.
                 (p = ''instagram'' \<longrightarrow>
                    entry = [(''platform'', Some ''instagram''), (''status'', Some ''error''),
                             (''id'', None), (''error'', Some ''No Instagram token'')])
               \<and> (p \<noteq> ''instagram'' \<and> p \<noteq> ''twitter'' \<longrightarrow>
                    platform_of entry = Some p \<and> dict_get entry ''status'' = Some ''success''))
               ps new"
        by blast
      with True show ?thesis
        by (intro exI [of _ w'] exI [of _ "?entry # new"])
           (simp add: post_to_instagram_without_token [OF assms] dict_merge_def)
    next
      case False
      let ?entry = "dict_merge [(''platform'', Some p)]
                      (snd (MockClient_post e w (post request) p (mediaUrls request)))"
      from Cons.IH [of "w + 2" "ids @ [?entry]"] obtain w' new
        where "create_post_loop e d user_id request ps (w + 2) (ids @ [?entry]) = (w', Inr ((ids @ [?entry]) @ new))"
          and "list_all2 (\<lambda>p entry.
                 (p = ''instagram'' \<longrightarrow>
                    entry = [(''platform'', Some ''instagram''), (''status'', Some ''error''),
                             (''id'', None), (''error'', Some ''No Instagram token'')])
               \<and> (p \<noteq> ''instagram'' \<and> p \<noteq> ''twitter'' \<longrightarrow>
                    platform_of entry = Some p \<and> dict_get entry ''status'' = Some ''success''))
               ps new"
        by blast
      with nt False show ?thesis
        by (intro exI [of _ w'] exI [of _ "?entry # new"])
           (simp add: MockClient_post_def dict_merge_def platform_of_def dict_get_def)
    qed
  qed
qed

lemma create_post_instagram_without_token_never_returns:
  assumes "''instagram'' \<in> set (platforms request)"
    and "find (\<lambda>r. pt_user_id r = user_id \<and> pt_platform r = ''instagram'') (platform_tokens d) = None"
  shows "create_post e w d request user_id \<noteq> (w', d', Inr response)"
proof
  assume call: "create_post e w d request user_id = (w', d', Inr response)"
  from create_post_Inr [OF call] obtain w1 ids st where
    loop: "create_post_loop e d user_id request (platforms request) (w + 1) [] = (w1, Inr ids)"
    and resp: "make_PostResponse st (uuid4 e w) ids = Inr response"
    by blast
  from loop_instagram_without_token [OF assms(2), of e request "platforms request" "w + 1" "[]"] loop
  have all: "list_all2 (\<lambda>p entry.
                 (p = ''instagram'' \<longrightarrow>
                    entry = [(''platform'', Some ''instagram''), (''status'', Some ''error''),
                             (''id'', None), (''error'', Some ''No Instagram token'')])
               \<and> (p \<noteq> ''instagram'' \<and> p \<noteq> ''twitter'' \<longrightarrow>
                    platform_of entry = Some p \<and> dict_get entry ''status'' = Some ''success''))
               (platforms request) ids"
    by auto
  from assms(1) obtain i where i: "i < length (platforms request)" "platforms request ! i = ''instagram''"
    by (auto simp: in_set_conv_nth)
  with all have eq: "ids ! i = [(''platform'', Some ''instagram''), (''status'', Some ''error''),
                             (''id'', None), (''error'', Some ''No Instagram token'')]"
    and len: "i < length ids"
    by (auto simp: list_all2_conv_all_nth)
  from len have mem: "ids ! i \<in> set ids"
    by (rule nth_mem)
  have "str_values (ids ! i) = None"
    unfolding eq by simp
  with mem have "\<exists>entry \<in> set ids. str_values entry = None"
    by blast
  then have "those (map str_values ids) = None"
    by (induction ids) (auto split: option.splits)
  with resp show False
    by (simp add: make_PostResponse_def)
qed

text \<open>
  An error entry in the list of the loop means that no response is returned; the
  entries of a response that is returned are all successes.
\<close>

lemma those_None:
  "\<exists>x \<in> set xs. x = None \<Longrightarrow> those xs = None"
  by (induction xs) (auto split: option.splits)

lemma no_response_with_error_entry:
  assumes loop: "create_post_loop e d user_id request (platforms request) (w + 1) [] = (w1, Inr ids)"
    and err: "\<exists>entry \<in> set ids. dict_get entry ''status'' = Some ''error''"
  shows "create_post e w d request user_id \<noteq> (w', d', Inr response)"
proof
  assume call: "create_post e w d request user_id = (w', d', Inr response)"
  from create_post_Inr [OF call] loop obtain st where
    resp: "make_PostResponse st (uuid4 e w) ids = Inr response"
    by auto
  from loop_entries [OF loop] have ok: "list_all2 entry_ok (platforms request) ids"
    by simp
  from err obtain entry where entry: "entry \<in> set ids" "dict_get entry ''status'' = Some ''error''"
    by blast
  from ok entry(1) obtain p where "entry_ok p entry"
    by (auto simp: list_all2_conv_all_nth in_set_conv_nth)
  with entry(2) have "str_values entry = None"
    by (auto simp: entry_ok_def)
  with entry(1) have "\<exists>x \<in> set (map str_values ids). x = None"
    by force
  then have "those (map str_values ids) = None"
    by (rule those_None)
  with resp show False
    by (simp add: make_PostResponse_def)
qed

lemma response_entries_all_success:
  assumes "create_post e w d request user_id = (w', d', Inr response)"
  shows "\<forall>dict \<in> set (postIds response). map_of dict ''status'' = Some ''success''"
proof -
  from create_post_Inr [OF assms] obtain w1 ids st where
    loop: "create_post_loop e d user_id request (platforms request) (w + 1) [] = (w1, Inr ids)"
    and resp: "make_PostResponse st (uuid4 e w) ids = Inr response"
    by blast
  from loop_entries [OF loop] have ok: "list_all2 entry_ok (platforms request) ids"
    by simp
  from resp have "those (map str_values ids) = Some (postIds response)"
    by (auto simp: make_PostResponse_def split: option.splits)
  then have sv: "list_all2 (\<lambda>entry dict. str_values entry = Some dict) ids (postIds response)"
    by (rule those_str_values)
  have "list_all2 (\<lambda>p dict. map_of dict ''status'' = Some ''success'') (platforms request) (postIds response)"
  proof (rule list_all2_trans [OF _ ok sv])
    fix p entry dict
    assume "entry_ok p entry" "str_values entry = Some dict"
    then show "map_of dict ''status'' = Some ''success''"
      by (auto simp: str_values_map_of entry_ok_def)
  qed
  then show ?thesis
    by (auto simp: list_all2_conv_all_nth in_set_conv_nth)
qed

lemmas example_defs = env0_def env_tweet_fails_def db_example_def bob_def carol_def request_of_def PLATFORMS_def
  select_is_admin_def user_by_id_def twitter_entry_def get_twitter_client_def
  post_to_instagram_def get_platform_token_def MockClient_post_def dict_merge_def
  create_post_def insert_post_def update_monthly_posts_def make_PostResponse_def
  str_nat.simps digit_def lower_def lower_char_def Let_def

section \<open>Theorems: posting\<close>

text \<open>
  C1. Two calls whose platform names are all supported and that pass the Twitter gate,
  and that return no list of entries: instagram for a user without a token, and
  twitter with facebook for an admin whose tweet raises. In both the loop builds one
  entry per platform, the Post is inserted with them, and the response model refuses
  the \<open>None\<close> id of the error entry: the call is answered with 500.
\<close>

theorem supported_call_returns_no_entries:
  "list_all (\<lambda>p. p \<in> set PLATFORMS) (platforms (request_of [''instagram''] None))
   \<and> ''twitter'' \<notin> set (platforms (request_of [''instagram''] None))
   \<and> create_post env0 0 db_example (request_of [''instagram''] None) ''u2''
     = (2, \<lparr>users = [bob\<lparr>monthly_posts := 1\<rparr>, carol],
            posts = [\<lparr>posts_id = ''uuid-0'', posts_user_id = ''u2'', content = ''hello'',
                      posts_platforms = [''instagram''], status = ''success'',
                      post_ids =
                        [[(''platform'', Some ''instagram''), (''status'', Some ''error''),
                          (''id'', None), (''error'', Some ''No Instagram token'')]],
                      created_at = ''2024-01-01T00:00:00''\<rparr>],
            platform_tokens = []\<rparr>,
        Inl (ValidationError ''postIds: Input should be a valid string''))
   \<and> list_all (\<lambda>p. p \<in> set PLATFORMS) (platforms (request_of [''twitter'', ''facebook''] None))
   \<and> select_is_admin db_example ''u3'' = Some True
   \<and> create_post env_tweet_fails 0 db_example (request_of [''twitter'', ''facebook''] None) ''u3''
     = (5, \<lparr>users = [bob, carol\<lparr>monthly_posts := 8\<rparr>],
            posts = [\<lparr>posts_id = ''uuid-0'', posts_user_id = ''u3'', content = ''hello'',
                      posts_platforms = [''twitter'', ''facebook''], status = ''success'',
                      post_ids =
                        [[(''platform'', Some ''twitter''), (''status'', Some ''error''),
                          (''id'', None), (''error'', Some ''503 Service Unavailable'')],
                         [(''platform'', Some ''facebook''), (''status'', Some ''success''),
                          (''id'', Some ''uuid-2''),
                          (''postUrl'', Some ''https://facebook.com/post/uuid-3'')]],
                      created_at = ''2024-01-01T00:00:00''\<rparr>],
            platform_tokens = []\<rparr>,
        Inl (ValidationError ''postIds: Input should be a valid string''))
   \<and> status_code (ValidationError ''postIds: Input should be a valid string'') = 500"
  by (simp add: example_defs)

text \<open>
  What holds of the entries. Every response that \<open>create_post\<close> returns lists one
  entry per requested platform, in the order of the request, the i-th entry tagged with
  the i-th platform; and a call whose platforms are supported and all generic (neither
  twitter nor instagram), with a fresh post id, does return a response.
\<close>

lemma create_post_one_entry_per_platform:
  "(\<forall>w' d' response.
      create_post e w d request user_id = (w', d', Inr response)
      \<longrightarrow> length (postIds response) = length (platforms request)
          \<and> map (\<lambda>dict. map_of dict ''platform'') (postIds response)
              = map Some (platforms request))
   \<and> (list_all (\<lambda>p. p \<in> set PLATFORMS) (platforms request)
        \<and> ''twitter'' \<notin> set (platforms request) \<and> ''instagram'' \<notin> set (platforms request)
        \<and> \<not> list_ex (\<lambda>p. posts_id p = uuid4 e w) (posts d)
      \<longrightarrow> (\<exists>w' d' response. create_post e w d request user_id = (w', d', Inr response)))"
proof (intro conjI allI impI)
  fix w' d' response
  assume call: "create_post e w d request user_id = (w', d', Inr response)"
  from response_tags [OF call]
  show tags: "map (\<lambda>dict. map_of dict ''platform'') (postIds response)
              = map Some (platforms request)" .
  from arg_cong [OF tags, of length]
  show "length (postIds response) = length (platforms request)"
    by simp
next
  assume "list_all (\<lambda>p. p \<in> set PLATFORMS) (platforms request)
        \<and> ''twitter'' \<notin> set (platforms request) \<and> ''instagram'' \<notin> set (platforms request)
        \<and> \<not> list_ex (\<lambda>p. posts_id p = uuid4 e w) (posts d)"
  then show "\<exists>w' d' response. create_post e w d request user_id = (w', d', Inr response)"
    by (intro create_post_mock_returns) simp_all
qed

lemma create_post_one_entry_per_platform_example:
  "create_post env0 0 db_example (request_of [''twitter'', ''facebook''] (Some True)) ''u3''
     = (5, \<lparr>users = [bob, carol\<lparr>monthly_posts := 8\<rparr>],
            posts = [\<lparr>posts_id = ''uuid-0'', posts_user_id = ''u3'', content = ''hello'',
                      posts_platforms = [''twitter'', ''facebook''],
                      status = ''awaiting_approval'',
                      post_ids =
                        [[(''platform'', Some ''twitter''), (''status'', Some ''success''),
                          (''id'', Some ''1''),
                          (''postUrl'', Some ''https://twitter.com/user/status/1'')],
                         [(''platform'', Some ''facebook''), (''status'', Some ''success''),
                          (''id'', Some ''uuid-2''),
                          (''postUrl'', Some ''https://facebook.com/post/uuid-3'')]],
                      created_at = ''2024-01-01T00:00:00''\<rparr>],
            platform_tokens = []\<rparr>,
        Inr \<lparr>response_status = ''awaiting_approval'', response_id = ''uuid-0'',
             postIds = [[(''platform'', ''twitter''), (''status'', ''success''), (''id'', ''1''),
                         (''postUrl'', ''https://twitter.com/user/status/1'')],
                        [(''platform'', ''facebook''), (''status'', ''success''),
                         (''id'', ''uuid-2''),
                         (''postUrl'', ''https://facebook.com/post/uuid-3'')]]\<rparr>)
   \<and> map (\<lambda>dict. map_of dict ''platform'')
         [[(''platform'', ''twitter''), (''status'', ''success''), (''id'', ''1''),
           (''postUrl'', ''https://twitter.com/user/status/1'')],
          [(''platform'', ''facebook''), (''status'', ''success''), (''id'', ''uuid-2''),
           (''postUrl'', ''https://facebook.com/post/uuid-3'')]]
       = map Some (platforms (request_of [''twitter'', ''facebook''] (Some True)))
   \<and> list_all (\<lambda>p. p \<in> set PLATFORMS) (platforms (request_of [''linkedin'', ''reddit''] None))
   \<and> \<not> list_ex (\<lambda>p. posts_id p = uuid4 env0 0) (posts db_example)
   \<and> (\<exists>w' d' response.
         create_post env0 0 db_example (request_of [''linkedin'', ''reddit''] None) ''u2''
           = (w', d', Inr response))"
  using create_post_one_entry_per_platform
          [of env0 0 db_example "request_of [''twitter'', ''facebook''] (Some True)" "''u3''"]
        create_post_one_entry_per_platform
          [of env0 0 db_example "request_of [''linkedin'', ''reddit''] None" "''u2''"]
  by (simp add: example_defs)

text \<open>
  C2. A request that names twitter together with an unsupported platform is refused
  with 400 "Invalid platforms", not 403, also for a user who is not an admin: the
  platform names are checked before the admin flag is read.
\<close>

theorem twitter_with_unsupported_platform_is_400:
  "''twitter'' \<in> set (platforms (request_of [''twitter'', ''myspace''] None))
   \<and> select_is_admin db_example ''u2'' = Some False
   \<and> create_post env0 0 db_example (request_of [''twitter'', ''myspace''] None) ''u2''
       = (0, db_example, Inl (HTTPException 400 ''Invalid platforms''))
   \<and> status_code (HTTPException 400 ''Invalid platforms'') \<noteq> 403"
  by (simp add: example_defs)

text \<open>
  C2, amended. When every requested platform is supported, twitter is among them and
  the acting user is not an admin, \<open>create_post\<close> fails with 403 and leaves the tick
  and the database as they were: no uuid is drawn, no platform is called, no Post is
  inserted and \<open>monthly_posts\<close> is not changed.
\<close>

theorem create_post_twitter_non_admin_forbidden:
  assumes "list_all (\<lambda>p. p \<in> set PLATFORMS) (platforms request)"
    and "''twitter'' \<in> set (platforms request)"
    and "select_is_admin d user_id = Some False"
  shows "create_post e w d request user_id
           = (w, d, Inl (HTTPException 403 ''Twitter posting restricted to admin users''))
         \<and> status_code (HTTPException 403 ''Twitter posting restricted to admin users'') = 403"
  using assms by (simp add: create_post_def)

theorem create_post_twitter_non_admin_forbidden_witness:
  "list_all (\<lambda>p. p \<in> set PLATFORMS) (platforms (request_of [''facebook'', ''twitter''] None))
   \<and> ''twitter'' \<in> set (platforms (request_of [''facebook'', ''twitter''] None))
   \<and> select_is_admin db_example ''u2'' = Some False
   \<and> create_post env0 0 db_example (request_of [''facebook'', ''twitter''] None) ''u2''
       = (0, db_example, Inl (HTTPException 403 ''Twitter posting restricted to admin users''))"
proof -
  let ?request = "request_of [''facebook'', ''twitter''] None"
  have valid: "list_all (\<lambda>p. p \<in> set PLATFORMS) (platforms ?request)"
    by (simp add: request_of_def PLATFORMS_def)
  have twitter: "''twitter'' \<in> set (platforms ?request)"
    by (simp add: request_of_def)
  have flag: "select_is_admin db_example ''u2'' = Some False"
    by (simp add: select_is_admin_def db_example_def bob_def)
  from create_post_twitter_non_admin_forbidden [OF valid twitter flag, of env0 0]
  show ?thesis using valid twitter flag by simp
qed

text \<open>
  C3. A call for instagram and facebook by a user without an Instagram token: the loop
  builds the error entry "No Instagram token" and the success entry of facebook, the
  Post is inserted and the counter updated, and then no response is returned, because
  the error entry holds \<open>"id": None\<close> and the response model takes strings only. The
  call ends with pydantic's \<open>ValidationError\<close>, answered with 500: the caller gets
  neither the error entry nor the success entry.
\<close>

theorem instagram_without_token_no_response:
  "create_post env0 0 db_example (request_of [''instagram'', ''facebook''] None) ''u2''
     = (4, \<lparr>users = [bob\<lparr>monthly_posts := 1\<rparr>, carol],
            posts = [\<lparr>posts_id = ''uuid-0'', posts_user_id = ''u2'', content = ''hello'',
                      posts_platforms = [''instagram'', ''facebook''], status = ''success'',
                      post_ids =
                        [[(''platform'', Some ''instagram''), (''status'', Some ''error''),
                          (''id'', None), (''error'', Some ''No Instagram token'')],
                         [(''platform'', Some ''facebook''), (''status'', Some ''success''),
                          (''id'', Some ''uuid-1''),
                          (''postUrl'', Some ''https://facebook.com/post/uuid-2'')]],
                      created_at = ''2024-01-01T00:00:00''\<rparr>],
            platform_tokens = []\<rparr>,
        Inl (ValidationError ''postIds: Input should be a valid string''))
   \<and> status_code (ValidationError ''postIds: Input should be a valid string'') = 500"
  by (simp add: example_defs)

text \<open>
  C6. Two calls with an error entry, one without \<open>requiresApproval\<close> and one with
  it: the Post is inserted with status "success", respectively "awaiting_approval",
  next to the error entry, but neither status is returned to the caller. The response
  model refuses the error entry and the call is answered with 500.
\<close>

theorem error_entry_status_not_returned:
  "create_post env0 0 db_example (request_of [''facebook'', ''instagram''] None) ''u2''
     = (4, \<lparr>users = [bob\<lparr>monthly_posts := 1\<rparr>, carol],
            posts = [\<lparr>posts_id = ''uuid-0'', posts_user_id = ''u2'', content = ''hello'',
                      posts_platforms = [''facebook'', ''instagram''], status = ''success'',
                      post_ids =
                        [[(''platform'', Some ''facebook''), (''status'', Some ''success''),
                          (''id'', Some ''uuid-1''),
                          (''postUrl'', Some ''https://facebook.com/post/uuid-2'')],
                         [(''platform'', Some ''instagram''), (''status'', Some ''error''),
                          (''id'', None), (''error'', Some ''No Instagram token'')]],
                      created_at = ''2024-01-01T00:00:00''\<rparr>],
            platform_tokens = []\<rparr>,
        Inl (ValidationError ''postIds: Input should be a valid string''))
   \<and> create_post env0 0 db_example (request_of [''facebook'', ''instagram''] (Some True)) ''u2''
     = (4, \<lparr>users = [bob\<lparr>monthly_posts := 1\<rparr>, carol],
            posts = [\<lparr>posts_id = ''uuid-0'', posts_user_id = ''u2'', content = ''hello'',
                      posts_platforms = [''facebook'', ''instagram''], status = ''awaiting_approval'',
                      post_ids =
                        [[(''platform'', Some ''facebook''), (''status'', Some ''success''),
                          (''id'', Some ''uuid-1''),
                          (''postUrl'', Some ''https://facebook.com/post/uuid-2'')],
                         [(''platform'', Some ''instagram''), (''status'', Some ''error''),
                          (''id'', None), (''error'', Some ''No Instagram token'')]],
                      created_at = ''2024-01-01T00:00:00''\<rparr>],
            platform_tokens = []\<rparr>,
        Inl (ValidationError ''postIds: Input should be a valid string''))
   \<and> status_code (ValidationError ''postIds: Input should be a valid string'') = 500"
  by (simp add: example_defs)

text \<open>
  What holds of the status. The status of the Post that \<open>create_post\<close> inserts, and
  the status of the response when one is returned, is "awaiting_approval" when
  \<open>requiresApproval\<close> is true and "success" otherwise.
\<close>

lemma create_post_status_from_flag:
  assumes "create_post e w d request user_id = (w', d', r)"
  shows "(posts d' = posts d
          \<or> (\<exists>row. posts d' = posts d @ [row]
                \<and> status row = (if requiresApproval request = Some True
                                 then ''awaiting_approval'' else ''success'')))
       \<and> (\<forall>response. r = Inr response
            \<longrightarrow> response_status response = (if requiresApproval request = Some True
                                              then ''awaiting_approval'' else ''success'')
              \<and> (\<exists>row. posts d' = posts d @ [row]
                    \<and> posts_id row = response_id response
                    \<and> status row = response_status response))"
  using create_post_outcome [OF assms]
  by (auto simp: update_monthly_posts_def make_PostResponse_def split: option.splits)

lemma create_post_status_from_flag_example:
  "create_post env0 0 db_example (request_of [''twitter'', ''facebook''] (Some True)) ''u3''
     = (5, \<lparr>users = [bob, carol\<lparr>monthly_posts := 8\<rparr>],
            posts = [\<lparr>posts_id = ''uuid-0'', posts_user_id = ''u3'', content = ''hello'',
                      posts_platforms = [''twitter'', ''facebook''],
                      status = ''awaiting_approval'',
                      post_ids =
                        [[(''platform'', Some ''twitter''), (''status'', Some ''success''),
                          (''id'', Some ''1''),
                          (''postUrl'', Some ''https://twitter.com/user/status/1'')],
                         [(''platform'', Some ''facebook''), (''status'', Some ''success''),
                          (''id'', Some ''uuid-2''),
                          (''postUrl'', Some ''https://facebook.com/post/uuid-3'')]],
                      created_at = ''2024-01-01T00:00:00''\<rparr>],
            platform_tokens = []\<rparr>,
        Inr \<lparr>response_status = ''awaiting_approval'', response_id = ''uuid-0'',
             postIds = [[(''platform'', ''twitter''), (''status'', ''success''), (''id'', ''1''),
                         (''postUrl'', ''https://twitter.com/user/status/1'')],
                        [(''platform'', ''facebook''), (''status'', ''success''),
                         (''id'', ''uuid-2''),
                         (''postUrl'', ''https://facebook.com/post/uuid-3'')]]\<rparr>)
   \<and> requiresApproval (request_of [''twitter'', ''facebook''] (Some True)) = Some True
   \<and> create_post env0 0 db_example (request_of [''instagram'', ''facebook''] None) ''u2''
     = (4, \<lparr>users = [bob\<lparr>monthly_posts := 1\<rparr>, carol],
            posts = [\<lparr>posts_id = ''uuid-0'', posts_user_id = ''u2'', content = ''hello'',
                      posts_platforms = [''instagram'', ''facebook''], status = ''success'',
                      post_ids =
                        [[(''platform'', Some ''instagram''), (''status'', Some ''error''),
                          (''id'', None), (''error'', Some ''No Instagram token'')],
                         [(''platform'', Some ''facebook''), (''status'', Some ''success''),
                          (''id'', Some ''uuid-1''),
                          (''postUrl'', Some ''https://facebook.com/post/uuid-2'')]],
                      created_at = ''2024-01-01T00:00:00''\<rparr>],
            platform_tokens = []\<rparr>,
        Inl (ValidationError ''postIds: Input should be a valid string''))
   \<and> requiresApproval (request_of [''instagram'', ''facebook''] None) \<noteq> Some True"
proof -
  have a: "create_post env0 0 db_example (request_of [''twitter'', ''facebook''] (Some True)) ''u3''
     = (5, \<lparr>users = [bob, carol\<lparr>monthly_posts := 8\<rparr>],
            posts = [\<lparr>posts_id = ''uuid-0'', posts_user_id = ''u3'', content = ''hello'',
                      posts_platforms = [''twitter'', ''facebook''],
                      status = ''awaiting_approval'',
                      post_ids =
                        [[(''platform'', Some ''twitter''), (''status'', Some ''success''),
                          (''id'', Some ''1''),
                          (''postUrl'', Some ''https://twitter.com/user/status/1'')],
                         [(''platform'', Some ''facebook''), (''status'', Some ''success''),
                          (''id'', Some ''uuid-2''),
                          (''postUrl'', Some ''https://facebook.com/post/uuid-3'')]],
                      created_at = ''2024-01-01T00:00:00''\<rparr>],
            platform_tokens = []\<rparr>,
        Inr \<lparr>response_status = ''awaiting_approval'', response_id = ''uuid-0'',
             postIds = [[(''platform'', ''twitter''), (''status'', ''success''), (''id'', ''1''),
                         (''postUrl'', ''https://twitter.com/user/status/1'')],
                        [(''platform'', ''facebook''), (''status'', ''success''),
                         (''id'', ''uuid-2''),
                         (''postUrl'', ''https://facebook.com/post/uuid-3'')]]\<rparr>)"
    by (simp add: example_defs)
  have b: "create_post env0 0 db_example (request_of [''instagram'', ''facebook''] None) ''u2''
     = (4, \<lparr>users = [bob\<lparr>monthly_posts := 1\<rparr>, carol],
            posts = [\<lparr>posts_id = ''uuid-0'', posts_user_id = ''u2'', content = ''hello'',
                      posts_platforms = [''instagram'', ''facebook''], status = ''success'',
                      post_ids =
                        [[(''platform'', Some ''instagram''), (''status'', Some ''error''),
                          (''id'', None), (''error'', Some ''No Instagram token'')],
                         [(''platform'', Some ''facebook''), (''status'', Some ''success''),
                          (''id'', Some ''uuid-1''),
                          (''postUrl'', Some ''https://facebook.com/post/uuid-2'')]],
                      created_at = ''2024-01-01T00:00:00''\<rparr>],
            platform_tokens = []\<rparr>,
        Inl (ValidationError ''postIds: Input should be a valid string''))"
    by (simp add: example_defs)
  from create_post_status_from_flag [OF a] create_post_status_from_flag [OF b] a b
  show ?thesis
    by (simp add: request_of_def)
qed

text \<open>
  C7. A call of \<open>create_post\<close> that reaches the insertion of the Post (the platform
  names are supported, the Twitter gate is passed, the loop has run to its end) with a
  fresh post id adds exactly 1 to \<open>monthly_posts\<close> of the acting user, whatever the
  platforms and the entries are; the other fields of that user and all other users stay
  as they were.
\<close>

theorem create_post_increments_monthly_posts:
  assumes "list_all (\<lambda>p. p \<in> set PLATFORMS) (platforms request)"
    and "''twitter'' \<in> set (platforms request) \<longrightarrow> select_is_admin d user_id = Some True"
    and "create_post_loop e d user_id request (platforms request) (w + 1) [] = (w1, Inr ids)"
    and "\<not> list_ex (\<lambda>p. posts_id p = uuid4 e w) (posts d)"
  shows "\<exists>w' d' r. create_post e w d request user_id = (w', d', r)
           \<and> (\<forall>u. user_by_id d user_id = Some u
                 \<longrightarrow> user_by_id d' user_id = Some (u\<lparr>monthly_posts := monthly_posts u + 1\<rparr>))
           \<and> (\<forall>other. other \<noteq> user_id \<longrightarrow> user_by_id d' other = user_by_id d other)
           \<and> length (users d') = length (users d)"
  unfolding create_post_persists [OF assms]
  by (simp add: user_by_id_def update_monthly_posts_def find_update_same find_update_other)

theorem create_post_increments_monthly_posts_witness:
  "list_all (\<lambda>p. p \<in> set PLATFORMS) (platforms (request_of [''instagram'', ''facebook''] None))
   \<and> ''twitter'' \<notin> set (platforms (request_of [''instagram'', ''facebook''] None))
   \<and> create_post_loop env0 db_example ''u2'' (request_of [''instagram'', ''facebook''] None)
        (platforms (request_of [''instagram'', ''facebook''] None)) (0 + 1) []
       = (3, Inr [[(''platform'', Some ''instagram''), (''status'', Some ''error''), (''id'', None),
                   (''error'', Some ''No Instagram token'')],
                  [(''platform'', Some ''facebook''), (''status'', Some ''success''),
                   (''id'', Some ''uuid-1''),
                   (''postUrl'', Some ''https://facebook.com/post/uuid-2'')]])
   \<and> \<not> list_ex (\<lambda>p. posts_id p = uuid4 env0 0) (posts db_example)
   \<and> user_by_id db_example ''u2'' = Some bob
   \<and> (\<exists>w' d' r. create_post env0 0 db_example (request_of [''instagram'', ''facebook''] None) ''u2''
                   = (w', d', r)
          \<and> user_by_id d' ''u2'' = Some (bob\<lparr>monthly_posts := 1\<rparr>)
          \<and> user_by_id d' ''u3'' = Some carol)"
proof -
  let ?request = "request_of [''instagram'', ''facebook''] None"
  have valid: "list_all (\<lambda>p. p \<in> set PLATFORMS) (platforms ?request)"
    by (simp add: request_of_def PLATFORMS_def)
  have gate: "''twitter'' \<in> set (platforms ?request) \<longrightarrow> select_is_admin db_example ''u2'' = Some True"
    by (simp add: request_of_def)
  have loop: "create_post_loop env0 db_example ''u2'' ?request (platforms ?request) (0 + 1) []
       = (3, Inr [[(''platform'', Some ''instagram''), (''status'', Some ''error''), (''id'', None),
                   (''error'', Some ''No Instagram token'')],
                  [(''platform'', Some ''facebook''), (''status'', Some ''success''),
                   (''id'', Some ''uuid-1''),
                   (''postUrl'', Some ''https://facebook.com/post/uuid-2'')]])"
    by (simp add: example_defs)
  have fresh: "\<not> list_ex (\<lambda>p. posts_id p = uuid4 env0 0) (posts db_example)"
    by (simp add: db_example_def)
  have bob: "user_by_id db_example ''u2'' = Some bob"
    by (simp add: user_by_id_def db_example_def bob_def)
  from create_post_increments_monthly_posts [OF valid gate loop fresh] obtain w' d' r
    where call: "create_post env0 0 db_example ?request ''u2'' = (w', d', r)"
      and same: "\<forall>u. user_by_id db_example ''u2'' = Some u
                 \<longrightarrow> user_by_id d' ''u2'' = Some (u\<lparr>monthly_posts := monthly_posts u + 1\<rparr>)"
      and other: "\<forall>other. other \<noteq> ''u2'' \<longrightarrow> user_by_id d' other = user_by_id db_example other"
    by blast
  from same bob have "user_by_id d' ''u2'' = Some (bob\<lparr>monthly_posts := 1\<rparr>)"
    by (simp add: bob_def)
  moreover from other have "user_by_id d' ''u3'' = Some carol"
    by (simp add: user_by_id_def db_example_def bob_def carol_def)
  ultimately show ?thesis
    using valid loop fresh bob call by (auto simp: request_of_def)
qed

section \<open>Theorems: login and registration\<close>

lemma login_user_failure_is_500:
  "login_user e d request = Inl ex \<Longrightarrow> status_code ex = 500"
  by (auto simp: login_user_def split: sum.splits)

lemma login_user_match:
  "find (\<lambda>u. email u = lower (login_email request)) (users d) = Some row
   \<Longrightarrow> pwd_verify e (login_password request) (password row)
   \<Longrightarrow> login_user e d request = Inr [(''api_key'', api_key row), (''message'', ''Login successful'')]"
  by (simp add: login_user_def login_user_try_def)

text \<open>
  C5. A login with an unknown email, and a login with a wrong password, raise 401
  inside the \<open>try\<close> block, and both are answered with 500: the handler
  \<open>except Exception\<close> of \<open>login_user\<close> catches the \<open>HTTPException\<close> and raises
  500 "Login error: ...". A matching login returns the stored API key.
\<close>

theorem login_mismatch_surfaces_as_500:
  "login_user_try env0 db_example \<lparr>login_email = ''nobody@example.com'', login_password = ''pw''\<rparr>
     = Inl (HTTPException 401 ''Invalid email or password'')
   \<and> login_user env0 db_example \<lparr>login_email = ''nobody@example.com'', login_password = ''pw''\<rparr>
     = Inl (HTTPException 500 ''Login error: 401: Invalid email or password'')
   \<and> login_user env0 db_example \<lparr>login_email = ''Bob@example.com'', login_password = ''wrong''\<rparr>
     = Inl (HTTPException 500 ''Login error: 401: Invalid email or password'')
   \<and> status_code (HTTPException 500 ''Login error: 401: Invalid email or password'') \<noteq> 401
   \<and> login_user env0 db_example \<lparr>login_email = ''Bob@example.com'', login_password = ''pw''\<rparr>
     = Inr [(''api_key'', ''key-bob''), (''message'', ''Login successful'')]"
  by (simp add: login_user_def login_user_try_def example_defs)

lemma passwords_differ_rejected:
  assumes "req_password body \<noteq> []" and "req_confirm_password body \<noteq> req_password body"
  shows "\<exists>errs. post_api_user e w d body = (w, d, Inl (RequestValidationError errs))
               \<and> ''Passwords do not match'' \<in> set errs"
  using assms
  by (simp add: post_api_user_def validate_UserCreateRequest_def passwords_match_def
        errors_of_def Let_def)

text \<open>
  C8. A registration with an empty password and a different confirm_password passes
  the validator \<open>passwords_match\<close>, whose test \<open>info.data.get("password") and ...\<close>
  skips the comparison when the password is empty, and the user is stored.
\<close>

theorem empty_password_mismatch_registers:
  "req_password \<lparr>req_email = ''dave@example.com'', req_password = [],
                  req_confirm_password = ''x'', req_admin_secret = None,
                  req_is_admin = False, req_tier = ''free''\<rparr>
     \<noteq> req_confirm_password \<lparr>req_email = ''dave@example.com'', req_password = [],
                  req_confirm_password = ''x'', req_admin_secret = None,
                  req_is_admin = False, req_tier = ''free''\<rparr>
   \<and> post_api_user env0 0 db_example
        \<lparr>req_email = ''dave@example.com'', req_password = [], req_confirm_password = ''x'',
         req_admin_secret = None, req_is_admin = False, req_tier = ''free''\<rparr>
     = (2, \<lparr>users = [bob, carol,
                      \<lparr>users_id = ''uuid-1'', email = ''dave@example.com'',
                       password = ''bcrypt:'', api_key = ''uuid-0'', tier = ''free'',
                       api_calls = 0, monthly_posts = 0, is_admin = False\<rparr>],
            posts = [], platform_tokens = []\<rparr>,
        Inr [(''api_key'', ''uuid-0'')])"
  by (simp add: post_api_user_def validate_UserCreateRequest_def passwords_match_def
        restrict_admin_def errors_of_def create_user_def insert_user_def example_defs)

end
